theory Spec2Isabelle
  imports Complex_Main
begin

section \<open>JavaScript values and strict equality\<close>

text \<open>
  \<^verbatim>\<open>verifyUserDetails\<close> compares the checker's response with \<^verbatim>\<open>===\<close>, so the
  model needs the values a JavaScript function can return and the strict equality
  comparison on them. The values are those of ECMAScript 5, the dialect the module is
  written in (\<^verbatim>\<open>var\<close>, \<^verbatim>\<open>module.exports\<close>).

  A number is given by its numeric value: the finite doubles are rationals, and the two
  zeros are one value \<open>Finite 0\<close>, since \<^verbatim>\<open>+0 === -0\<close> holds and the code under
  study looks at a number only through \<^verbatim>\<open>===\<close>. The infinities and NaN are values
  of their own. An object is given by its reference.
\<close>

datatype number = Finite rat | PosInfinity | NegInfinity | NaN

datatype jsval =
    JUndefined
  | JNull
  | JBool bool
  | JNumber number
  | JStr string
  | JObj nat

text \<open>
  The strict equality comparison \<^verbatim>\<open>x === y\<close>: values of different types are never
  equal and nothing is converted; NaN is equal to nothing, itself included.
\<close>

fun number_equals :: "number \<Rightarrow> number \<Rightarrow> bool" where
  "number_equals NaN _ = False"
| "number_equals _ NaN = False"
| "number_equals (Finite a) (Finite b) = (a = b)"
| "number_equals PosInfinity PosInfinity = True"
| "number_equals NegInfinity NegInfinity = True"
| "number_equals _ _ = False"

fun strict_equals :: "jsval \<Rightarrow> jsval \<Rightarrow> bool" where
  "strict_equals JUndefined JUndefined = True"
| "strict_equals JNull JNull = True"
| "strict_equals (JNumber a) (JNumber b) = number_equals a b"
| "strict_equals (JStr a) (JStr b) = (a = b)"
| "strict_equals (JBool a) (JBool b) = (a = b)"
| "strict_equals (JObj a) (JObj b) = (a = b)"
| "strict_equals _ _ = False"

text \<open>The number literals of the source: \<^verbatim>\<open>1\<close>, \<^verbatim>\<open>0\<close> and \<^verbatim>\<open>-1\<close>.\<close>

definition num :: "int \<Rightarrow> jsval" where
  "num i = JNumber (Finite (of_int i))"

section \<open>Calls, exceptions and the module object\<close>

text \<open>
  A JavaScript call either returns a value or throws, and it may change the world on
  the way. A function is therefore a map from its arguments and the world before the
  call to an outcome and the world after it; \<open>Inl\<close> is a throw. The world \<open>'w\<close> is
  whatever the collaborators read and write; \<^verbatim>\<open>verifyUserDetails\<close> itself touches
  none of it.
\<close>

datatype error =
    TypeError          \<comment> \<open>calling a property that is not a function\<close>
  | Thrown jsval       \<comment> \<open>a value thrown by a collaborator\<close>

type_synonym 'w fn = "jsval list \<Rightarrow> 'w \<Rightarrow> (error + jsval) \<times> 'w"

text \<open>
  A property of the module object holds a function or some other value. The module's
  methods are ordinary, assignable properties: the test suite replaces two of them
  with spies.
\<close>

datatype 'w property = Method "'w fn" | Data jsval

text \<open>
  The object \<^verbatim>\<open>this\<close> refers to inside \<^verbatim>\<open>verifyUserDetails\<close>, as far as the
  function reads it: the two properties it calls. They are read from the object the
  function was called on; the model takes that object as it is when the call starts.
\<close>

record 'w userDetails =
  checkUserDetails :: "'w property"
  displayErrorMessage :: "'w property"

text \<open>\<^verbatim>\<open>this.p( args )\<close>: calling a property that is not a function throws a TypeError.\<close>

fun call_method :: "'w property \<Rightarrow> 'w fn" where
  "call_method (Method f) args w = f args w"
| "call_method (Data v) args w = (Inl TypeError, w)"

section \<open>The module \<^verbatim>\<open>app/userDetails.js\<close>\<close>

text \<open>
  \<^verbatim>\<open>checkUserDetails: function() {}\<close> and \<^verbatim>\<open>displayErrorMessage: function () {}\<close>:
  both placeholders ignore their arguments, change nothing and return \<^verbatim>\<open>undefined\<close>.
\<close>

definition noop :: "'w fn" where
  "noop args w = (Inr JUndefined, w)"

definition module_exports :: "'w userDetails" where
  "module_exports = \<lparr> checkUserDetails = Method noop, displayErrorMessage = Method noop \<rparr>"

text \<open>
  \<^verbatim>\<open>
  verifyUserDetails: function ( username ) {
      var userVerified = false;
      var response = this.checkUserDetails( username );
      if( response === 1 ) {
          userVerified = true;
      } else if( response === 0 ) {
          this.displayErrorMessage( 'You do not have admin rights to this system' );
      } else if( response === -1 ) {
          this.displayErrorMessage( 'User details not recognised' );
      }
      return userVerified;
  }
  \<close>
  A throw inside a collaborator call leaves the function at once, with the world as
  the collaborator left it. The value \<^verbatim>\<open>displayErrorMessage\<close> returns is dropped.
\<close>

definition verifyUserDetails ::
  "'w userDetails \<Rightarrow> jsval \<Rightarrow> 'w \<Rightarrow> (error + bool) \<times> 'w" where
  "verifyUserDetails this username w =
     (let userVerified = False in
      case call_method (checkUserDetails this) [username] w of
        (Inl e, w1) \<Rightarrow> (Inl e, w1)
      | (Inr response, w1) \<Rightarrow>
          if strict_equals response (num 1) then
            (let userVerified = True in (Inr userVerified, w1))
          else if strict_equals response (num 0) then
            (case call_method (displayErrorMessage this)
                    [JStr ''You do not have admin rights to this system''] w1 of
               (Inl e, w2) \<Rightarrow> (Inl e, w2)
             | (Inr _, w2) \<Rightarrow> (Inr userVerified, w2))
          else if strict_equals response (num (- 1)) then
            (case call_method (displayErrorMessage this)
                    [JStr ''User details not recognised''] w1 of
               (Inl e, w2) \<Rightarrow> (Inl e, w2)
             | (Inr _, w2) \<Rightarrow> (Inr userVerified, w2))
          else (Inr userVerified, w1))"

section \<open>Observing the collaborator calls\<close>

text \<open>
  The test suite observes the collaborators with Jasmine spies:
  \<^verbatim>\<open>spyOn( userDetails, 'checkUserDetails' )\<close> replaces the property by a function
  that records the call and its arguments, and
  \<^verbatim>\<open>userDetails.checkUserDetails.and.returnValue( 1 )\<close> makes it answer 1.
  Here a spy records the call in a log kept beside the world, then runs the behaviour
  it was given, which may be any function at all.
\<close>

type_synonym call = "string \<times> jsval list"

definition spyOn :: "string \<Rightarrow> 'w fn \<Rightarrow> (call list \<times> 'w) fn" where
  "spyOn name f args s =
     (case s of (recorded, w) \<Rightarrow>
        (case f args w of (outcome, w') \<Rightarrow> (outcome, (recorded @ [(name, args)], w'))))"

definition returnValue :: "jsval \<Rightarrow> 'w fn" where
  "returnValue v args w = (Inr v, w)"

text \<open>The module with both collaborators spied on, as in the suite's \<^verbatim>\<open>beforeEach\<close>.\<close>

definition spied :: "'w fn \<Rightarrow> 'w fn \<Rightarrow> (call list \<times> 'w) userDetails" where
  "spied chk disp =
     \<lparr> checkUserDetails = Method (spyOn ''checkUserDetails'' chk),
       displayErrorMessage = Method (spyOn ''displayErrorMessage'' disp) \<rparr>"

text \<open>The argument lists of the recorded calls to one property, in call order.\<close>

definition calls_to :: "string \<Rightarrow> call list \<Rightarrow> jsval list list" where
  "calls_to name recorded = map snd (filter (\<lambda>c. fst c = name) recorded)"

text \<open>The calls that fresh spies record during one call of \<^verbatim>\<open>verifyUserDetails\<close>.\<close>

definition calls_made :: "'w fn \<Rightarrow> 'w fn \<Rightarrow> jsval \<Rightarrow> 'w \<Rightarrow> call list" where
  "calls_made chk disp username w =
     fst (snd (verifyUserDetails (spied chk disp) username ([], w)))"

text \<open>A collaborator returns normally when no call of it throws.\<close>

definition returns_normally :: "'w property \<Rightarrow> bool" where
  "returns_normally p = (\<forall>args w. \<exists>v w'. call_method p args w = (Inr v, w'))"

section \<open>Strict equality with a number literal\<close>

lemma strict_equals_num: "strict_equals r (num i) = (r = num i)"
proof (cases r)
  case (JNumber n)
  then show ?thesis by (cases n) (simp_all add: num_def)
qed (simp_all add: num_def)

lemma num_eq_iff: "(num i = num j) = (i = j)"
  by (simp add: num_def)

section \<open>The function, once the checker has answered\<close>

lemma verify_returns:
  assumes "call_method (checkUserDetails this) [username] w = (Inr r, w1)"
  shows "verifyUserDetails this username w =
     (if r = num 1 then (Inr True, w1)
      else if r = num 0 then
        (case call_method (displayErrorMessage this)
                [JStr ''You do not have admin rights to this system''] w1 of
           (Inl e, w2) \<Rightarrow> (Inl e, w2) | (Inr v, w2) \<Rightarrow> (Inr False, w2))
      else if r = num (- 1) then
        (case call_method (displayErrorMessage this)
                [JStr ''User details not recognised''] w1 of
           (Inl e, w2) \<Rightarrow> (Inl e, w2) | (Inr v, w2) \<Rightarrow> (Inr False, w2))
      else (Inr False, w1))"
  using assms by (simp add: verifyUserDetails_def strict_equals_num)

lemma verify_throws:
  assumes "call_method (checkUserDetails this) [username] w = (Inl e, w1)"
  shows "verifyUserDetails this username w = (Inl e, w1)"
  using assms by (simp add: verifyUserDetails_def)

lemma spied_check:
  "call_method (checkUserDetails (spied chk disp)) args (cs, w) =
     (fst (chk args w), (cs @ [(''checkUserDetails'', args)], snd (chk args w)))"
  by (simp add: spied_def spyOn_def split: prod.splits)

lemma spied_display:
  "call_method (displayErrorMessage (spied chk disp)) args (cs, w) =
     (fst (disp args w), (cs @ [(''displayErrorMessage'', args)], snd (disp args w)))"
  by (simp add: spied_def spyOn_def split: prod.splits)

section \<open>What the spies record\<close>

text \<open>The calls recorded during one call, by the outcome of the checker.\<close>

lemma log_after_throw:
  assumes "fst (chk [username] w) = Inl e"
  shows "fst (snd (verifyUserDetails (spied chk disp) username (cs, w))) =
     cs @ [(''checkUserDetails'', [username])]"
proof -
  have "call_method (checkUserDetails (spied chk disp)) [username] (cs, w) =
      (Inl e, (cs @ [(''checkUserDetails'', [username])], snd (chk [username] w)))"
    by (simp add: spied_check assms)
  then show ?thesis by (simp add: verify_throws)
qed

lemma log_after_return:
  assumes "fst (chk [username] w) = Inr r"
  shows "fst (snd (verifyUserDetails (spied chk disp) username (cs, w))) =
     cs @ (''checkUserDetails'', [username]) #
       (if r = num 0 then
          [(''displayErrorMessage'', [JStr ''You do not have admin rights to this system''])]
        else if r = num (- 1) then
          [(''displayErrorMessage'', [JStr ''User details not recognised''])]
        else [])"
proof -
  have c: "call_method (checkUserDetails (spied chk disp)) [username] (cs, w) =
      (Inr r, (cs @ [(''checkUserDetails'', [username])], snd (chk [username] w)))"
    by (simp add: spied_check assms)
  show ?thesis
    by (simp add: verify_returns [OF c] spied_display num_eq_iff split: prod.splits sum.splits)
qed

lemma log_after:
  "fst (snd (verifyUserDetails (spied chk disp) username (cs, w))) =
     cs @ calls_made chk disp username w"
proof (cases "fst (chk [username] w)")
  case (Inl e)
  then show ?thesis by (simp add: calls_made_def log_after_throw)
next
  case (Inr r)
  then show ?thesis by (simp add: calls_made_def log_after_return)
qed

lemma calls_made_throw:
  "fst (chk [username] w) = Inl e \<Longrightarrow>
   calls_made chk disp username w = [(''checkUserDetails'', [username])]"
  by (simp add: calls_made_def log_after_throw)

lemma calls_made_return:
  "fst (chk [username] w) = Inr r \<Longrightarrow>
   calls_made chk disp username w =
     (''checkUserDetails'', [username]) #
       (if r = num 0 then
          [(''displayErrorMessage'', [JStr ''You do not have admin rights to this system''])]
        else if r = num (- 1) then
          [(''displayErrorMessage'', [JStr ''User details not recognised''])]
        else [])"
  by (simp add: calls_made_def log_after_return)

lemma calls_to_append: "calls_to name (xs @ ys) = calls_to name xs @ calls_to name ys"
  by (simp add: calls_to_def)

lemma calls_to_Nil: "calls_to name [] = []"
  by (simp add: calls_to_def)

lemma checker_calls_made:
  "calls_to ''checkUserDetails'' (calls_made chk disp username w) = [[username]]"
  by (cases "fst (chk [username] w)")
     (simp_all add: calls_made_throw calls_made_return calls_to_def)

lemma reporter_calls_made:
  "calls_to ''displayErrorMessage'' (calls_made chk disp username w) =
     (if fst (chk [username] w) = Inr (num 0) then
        [[JStr ''You do not have admin rights to this system'']]
      else if fst (chk [username] w) = Inr (num (- 1)) then
        [[JStr ''User details not recognised'']]
      else [])"
  by (cases "fst (chk [username] w)")
     (simp_all add: calls_made_throw calls_made_return calls_to_def num_eq_iff)

section \<open>The result\<close>

lemma granted_iff:
  assumes "call_method (checkUserDetails this) [username] w = (Inr r, w1)"
  shows "(fst (verifyUserDetails this username w) = Inr True) = (r = num 1)"
  by (simp add: verify_returns [OF assms] num_eq_iff split: prod.splits sum.splits)

lemma result_of_response:
  assumes chk: "call_method (checkUserDetails this) [username] w = (Inr r, w1)"
    and disp: "returns_normally (displayErrorMessage this)"
  shows "fst (verifyUserDetails this username w) = Inr (r = num 1)"
proof -
  from disp have ok: "\<exists>v w2. call_method (displayErrorMessage this) [m] w1 = (Inr v, w2)" for m
    by (simp add: returns_normally_def)
  obtain v0 w0 where d0: "call_method (displayErrorMessage this)
      [JStr ''You do not have admin rights to this system''] w1 = (Inr v0, w0)"
    using ok by blast
  obtain v1 w1' where d1: "call_method (displayErrorMessage this)
      [JStr ''User details not recognised''] w1 = (Inr v1, w1')"
    using ok by blast
  show ?thesis
    by (simp add: verify_returns [OF chk] d0 d1 num_eq_iff)
qed

text \<open>
  The module as it is shipped: the placeholder checker answers \<^verbatim>\<open>undefined\<close>, so
  access is denied. And an object whose \<^verbatim>\<open>checkUserDetails\<close> is not a function makes
  the call throw.
\<close>

lemma module_exports_denies:
  "verifyUserDetails module_exports username w = (Inr False, w)"
proof -
  have "call_method (checkUserDetails module_exports) [username] w = (Inr JUndefined, w)"
    by (simp add: module_exports_def noop_def)
  then show ?thesis
    by (simp add: verify_returns num_def)
qed

lemma not_a_function_throws:
  "verifyUserDetails \<lparr> checkUserDetails = Data v, displayErrorMessage = p \<rparr> username w =
     (Inl TypeError, w)"
  by (simp add: verify_throws)

lemma spied_display_normal:
  assumes "returns_normally (Method disp)"
  shows "returns_normally (displayErrorMessage (spied chk disp))"
proof -
  have "\<exists>v s'. call_method (displayErrorMessage (spied chk disp)) args s = (Inr v, s')" for args s
  proof -
    obtain cs w where s: "s = (cs, w)" by (cases s)
    from assms obtain v w' where "disp args w = (Inr v, w')"
      unfolding returns_normally_def by (metis call_method.simps(1))
    then show ?thesis by (simp add: s spied_display)
  qed
  then show ?thesis by (simp add: returns_normally_def)
qed

lemma noop_normal: "returns_normally (Method noop)"
  by (simp add: returns_normally_def noop_def)

section \<open>The specification's statements\<close>

text \<open>
  C1. Whatever the checker answers, \<^verbatim>\<open>verifyUserDetails\<close> returns \<^verbatim>\<open>true\<close> exactly when
  the answer is the number 1. For every other answer (0, -1, or any other value: the
  string \<^verbatim>\<open>'1'\<close> and \<^verbatim>\<open>true\<close> are among them, since \<^verbatim>\<open>===\<close> converts nothing) it
  returns \<^verbatim>\<open>false\<close>, the error reporter returning normally where it is called.
\<close>

theorem verifyUserDetails_true_iff_one:
  assumes "call_method (checkUserDetails this) [username] w = (Inr r, wc)"
  shows "(fst (verifyUserDetails this username w) = Inr True \<longleftrightarrow> r = num 1) \<and>
         (returns_normally (displayErrorMessage this) \<longrightarrow>
            fst (verifyUserDetails this username w) = Inr (r = num 1))"
  using assms by (simp add: granted_iff result_of_response)

theorem verifyUserDetails_true_iff_one_witness:
  "call_method (checkUserDetails (spied (returnValue (num 1)) noop)) [JStr ''batman''] ([], ())
     = (Inr (num 1), ([(''checkUserDetails'', [JStr ''batman''])], ())) \<and>
   returns_normally (displayErrorMessage (spied (returnValue (num 1)) (noop :: unit fn))) \<and>
   fst (verifyUserDetails (spied (returnValue (num 1)) noop) (JStr ''batman'') ([], ()))
     = Inr True"
proof -
  have c: "call_method (checkUserDetails (spied (returnValue (num 1)) noop))
      [JStr ''batman''] ([], ()) = (Inr (num 1), ([(''checkUserDetails'', [JStr ''batman''])], ()))"
    by (simp add: spied_check returnValue_def)
  have d: "returns_normally (displayErrorMessage (spied (returnValue (num 1)) (noop :: unit fn)))"
    by (rule spied_display_normal [OF noop_normal])
  show ?thesis
    using verifyUserDetails_true_iff_one [OF c] c d by simp
qed

text \<open>
  C2. For every username, when the checker answers 0, \<^verbatim>\<open>verifyUserDetails\<close> returns
  \<^verbatim>\<open>false\<close> and calls \<^verbatim>\<open>displayErrorMessage\<close> exactly once, with exactly the string
  "You do not have admin rights to this system": the spies record the checker call and
  then that one reporter call, and nothing else.
\<close>

theorem verifyUserDetails_response_zero:
  assumes chk: "chk [username] w = (Inr (num 0), wc)"
    and disp: "disp [JStr ''You do not have admin rights to this system''] wc = (Inr v, wd)"
  shows "verifyUserDetails (spied chk disp) username (cs, w) =
     (Inr False,
      (cs @ [(''checkUserDetails'', [username]),
             (''displayErrorMessage'', [JStr ''You do not have admin rights to this system''])],
       wd))"
proof -
  have c: "call_method (checkUserDetails (spied chk disp)) [username] (cs, w) =
      (Inr (num 0), (cs @ [(''checkUserDetails'', [username])], wc))"
    by (simp add: spied_check chk)
  show ?thesis
    by (simp add: verify_returns [OF c] spied_display disp num_eq_iff)
qed

theorem verifyUserDetails_response_zero_witness:
  "returnValue (num 0) [JStr ''robin''] () = (Inr (num 0), ()) \<and>
   noop [JStr ''You do not have admin rights to this system''] () = (Inr JUndefined, ()) \<and>
   verifyUserDetails (spied (returnValue (num 0)) noop) (JStr ''robin'') ([], ()) =
     (Inr False,
      ([(''checkUserDetails'', [JStr ''robin'']),
        (''displayErrorMessage'', [JStr ''You do not have admin rights to this system''])],
       ()))"
proof -
  have c: "returnValue (num 0) [JStr ''robin''] () = (Inr (num 0), ())"
    by (simp add: returnValue_def)
  have d: "noop [JStr ''You do not have admin rights to this system''] () = (Inr JUndefined, ())"
    by (simp add: noop_def)
  show ?thesis
    using verifyUserDetails_response_zero
      [where chk = "returnValue (num 0)" and disp = noop and username = "JStr ''robin''"
         and w = "()" and wc = "()" and wd = "()" and v = JUndefined and cs = "[]"] c d
    by simp
qed

text \<open>
  C3. For every username, when the checker answers -1, \<^verbatim>\<open>verifyUserDetails\<close> returns
  \<^verbatim>\<open>false\<close> and calls \<^verbatim>\<open>displayErrorMessage\<close> exactly once, with exactly the string
  "User details not recognised".
\<close>

theorem verifyUserDetails_response_minus_one:
  assumes chk: "chk [username] w = (Inr (num (- 1)), wc)"
    and disp: "disp [JStr ''User details not recognised''] wc = (Inr v, wd)"
  shows "verifyUserDetails (spied chk disp) username (cs, w) =
     (Inr False,
      (cs @ [(''checkUserDetails'', [username]),
             (''displayErrorMessage'', [JStr ''User details not recognised''])],
       wd))"
proof -
  have c: "call_method (checkUserDetails (spied chk disp)) [username] (cs, w) =
      (Inr (num (- 1)), (cs @ [(''checkUserDetails'', [username])], wc))"
    by (simp add: spied_check chk)
  show ?thesis
    by (simp add: verify_returns [OF c] spied_display disp num_eq_iff)
qed

theorem verifyUserDetails_response_minus_one_witness:
  "returnValue (num (- 1)) [JStr ''joker''] () = (Inr (num (- 1)), ()) \<and>
   noop [JStr ''User details not recognised''] () = (Inr JUndefined, ()) \<and>
   verifyUserDetails (spied (returnValue (num (- 1))) noop) (JStr ''joker'') ([], ()) =
     (Inr False,
      ([(''checkUserDetails'', [JStr ''joker'']),
        (''displayErrorMessage'', [JStr ''User details not recognised''])],
       ()))"
proof -
  have c: "returnValue (num (- 1)) [JStr ''joker''] () = (Inr (num (- 1)), ())"
    by (simp add: returnValue_def)
  have d: "noop [JStr ''User details not recognised''] () = (Inr JUndefined, ())"
    by (simp add: noop_def)
  show ?thesis
    using verifyUserDetails_response_minus_one
      [where chk = "returnValue (num (- 1))" and disp = noop and username = "JStr ''joker''"
         and w = "()" and wc = "()" and wd = "()" and v = JUndefined and cs = "[]"] c d
    by simp
qed

text \<open>
  C4. For every answer of the checker other than 1, 0 and -1, \<^verbatim>\<open>verifyUserDetails\<close>
  returns \<^verbatim>\<open>false\<close> and does not call the error reporter: the spies record the checker
  call alone, and the world is as the checker left it.
\<close>

theorem verifyUserDetails_other_response:
  assumes chk: "chk [username] w = (Inr r, wc)"
    and other: "r \<noteq> num 1" "r \<noteq> num 0" "r \<noteq> num (- 1)"
  shows "verifyUserDetails (spied chk disp) username (cs, w) =
     (Inr False, (cs @ [(''checkUserDetails'', [username])], wc))"
proof -
  have c: "call_method (checkUserDetails (spied chk disp)) [username] (cs, w) =
      (Inr r, (cs @ [(''checkUserDetails'', [username])], wc))"
    by (simp add: spied_check chk)
  show ?thesis
    by (simp add: verify_returns [OF c] other)
qed

theorem verifyUserDetails_other_response_witness:
  "returnValue (JStr ''1'') [JStr ''batman''] () = (Inr (JStr ''1''), ()) \<and>
   JStr ''1'' \<noteq> num 1 \<and> JStr ''1'' \<noteq> num 0 \<and> JStr ''1'' \<noteq> num (- 1) \<and>
   verifyUserDetails (spied (returnValue (JStr ''1'')) noop) (JStr ''batman'') ([], ()) =
     (Inr False, ([(''checkUserDetails'', [JStr ''batman''])], ()))"
proof -
  have c: "returnValue (JStr ''1'') [JStr ''batman''] () = (Inr (JStr ''1''), ())"
    by (simp add: returnValue_def)
  have o: "JStr ''1'' \<noteq> num 1" "JStr ''1'' \<noteq> num 0" "JStr ''1'' \<noteq> num (- 1)"
    by (simp_all add: num_def)
  show ?thesis
    using verifyUserDetails_other_response
      [where chk = "returnValue (JStr ''1'')" and disp = noop and username = "JStr ''batman''"
         and w = "()" and wc = "()" and r = "JStr ''1''" and cs = "[]"] c o
    by simp
qed

text \<open>
  C5. For every username and whatever the collaborators do, one call of
  \<^verbatim>\<open>verifyUserDetails\<close> calls \<^verbatim>\<open>checkUserDetails\<close> exactly once, never zero
  times and never twice, and passes it the caller's username unchanged as its only
  argument: the calls the spy has recorded afterwards are those recorded before, and
  one more with the argument list \<open>[username]\<close>.
\<close>

theorem checkUserDetails_called_once:
  "calls_to ''checkUserDetails''
     (fst (snd (verifyUserDetails (spied chk disp) username (cs, w)))) =
   calls_to ''checkUserDetails'' cs @ [[username]]"
  by (simp add: log_after calls_to_append checker_calls_made)

theorem checkUserDetails_called_once_witness:
  "calls_to ''checkUserDetails''
     (fst (snd (verifyUserDetails (spied (returnValue (num 1)) noop) (JStr ''batman'')
        ([(''checkUserDetails'', [JStr ''robin''])], ())))) =
   [[JStr ''robin''], [JStr ''batman'']]"
  using checkUserDetails_called_once
    [where chk = "returnValue (num 1)" and disp = noop and username = "JStr ''batman''"
       and cs = "[(''checkUserDetails'', [JStr ''robin''])]" and w = "()"]
  by (simp add: calls_to_def)

text \<open>
  C6. For every username and whatever the collaborators do, one call of
  \<^verbatim>\<open>verifyUserDetails\<close> calls the error reporter at most once, and calls it only
  when the checker has answered 0 or -1.
\<close>

theorem displayErrorMessage_at_most_once:
  "length (calls_to ''displayErrorMessage'' (calls_made chk disp username w)) \<le> 1 \<and>
   (calls_to ''displayErrorMessage'' (calls_made chk disp username w) \<noteq> [] \<longrightarrow>
      fst (chk [username] w) = Inr (num 0) \<or> fst (chk [username] w) = Inr (num (- 1)))"
  by (simp add: reporter_calls_made)

theorem displayErrorMessage_at_most_once_witness:
  "calls_to ''displayErrorMessage''
     (calls_made (returnValue (num 0)) noop (JStr ''robin'') ()) \<noteq> [] \<and>
   length (calls_to ''displayErrorMessage''
     (calls_made (returnValue (num 0)) noop (JStr ''robin'') ())) \<le> 1 \<and>
   fst (returnValue (num 0) [JStr ''robin''] ()) = Inr (num 0)"
proof -
  have called: "calls_to ''displayErrorMessage''
      (calls_made (returnValue (num 0)) noop (JStr ''robin'') ()) \<noteq> []"
    by (simp add: reporter_calls_made returnValue_def)
  have answer: "fst (returnValue (num 0) [JStr ''robin''] ()) \<noteq> Inr (num (- 1))"
    by (simp add: returnValue_def num_def)
  show ?thesis
    using displayErrorMessage_at_most_once
      [where chk = "returnValue (num 0)" and disp = noop and username = "JStr ''robin''"
         and w = "()"] called answer
    by blast
qed

text \<open>
  C7. For every username, on every object whose two collaborators return normally,
  \<^verbatim>\<open>verifyUserDetails\<close> runs to completion and returns a boolean: it does not throw.
\<close>

theorem verifyUserDetails_returns:
  assumes chk: "returns_normally (checkUserDetails this)"
    and disp: "returns_normally (displayErrorMessage this)"
  shows "\<exists>b w'. verifyUserDetails this username w = (Inr b, w')"
proof -
  from chk obtain r wc where c: "call_method (checkUserDetails this) [username] w = (Inr r, wc)"
    unfolding returns_normally_def by blast
  have "fst (verifyUserDetails this username w) = Inr (r = num 1)"
    by (rule result_of_response [OF c disp])
  then show ?thesis by (metis prod.collapse)
qed

theorem verifyUserDetails_returns_witness:
  "returns_normally (checkUserDetails (module_exports :: unit userDetails)) \<and>
   returns_normally (displayErrorMessage (module_exports :: unit userDetails)) \<and>
   (\<exists>b w'. verifyUserDetails module_exports (JStr ''batman'') () = (Inr b, w'))"
proof -
  have c: "returns_normally (checkUserDetails (module_exports :: unit userDetails))"
    by (simp add: module_exports_def noop_normal)
  have d: "returns_normally (displayErrorMessage (module_exports :: unit userDetails))"
    by (simp add: module_exports_def noop_normal)
  show ?thesis
    using verifyUserDetails_returns [OF c d, of "JStr ''batman''" "()"] c d by simp
qed

text \<open>
  C8. For every username and a checker that gives one fixed answer, two calls of
  \<^verbatim>\<open>verifyUserDetails\<close> in a row return the same boolean and make the same calls
  of the error reporter each time (the same number, with the same messages): the second
  call starts in the world and with the spy records the first one left, and nothing the
  function keeps from the first call changes the second.
\<close>

theorem verifyUserDetails_twice:
  assumes fixed: "\<And>w. fst (chk [username] w) = Inr r"
    and disp: "returns_normally (Method disp)"
  shows "\<exists>b s1 s2 ms.
     verifyUserDetails (spied chk disp) username (cs, w) = (Inr b, s1) \<and>
     verifyUserDetails (spied chk disp) username s1 = (Inr b, s2) \<and>
     calls_to ''displayErrorMessage'' (fst s1) = calls_to ''displayErrorMessage'' cs @ ms \<and>
     calls_to ''displayErrorMessage'' (fst s2) = calls_to ''displayErrorMessage'' (fst s1) @ ms"
proof -
  let ?T = "spied chk disp"
  have normal: "returns_normally (displayErrorMessage ?T)"
    by (rule spied_display_normal [OF disp])
  have result: "fst (verifyUserDetails ?T username (cs', w')) = Inr (r = num 1)" for cs' w'
  proof -
    have "call_method (checkUserDetails ?T) [username] (cs', w') =
        (Inr r, (cs' @ [(''checkUserDetails'', [username])], snd (chk [username] w')))"
      by (simp add: spied_check fixed)
    then show ?thesis by (rule result_of_response [OF _ normal])
  qed
  have reported: "calls_to ''displayErrorMessage'' (calls_made chk disp username w') =
      calls_to ''displayErrorMessage'' (calls_made chk disp username w)" for w'
    by (simp add: reporter_calls_made fixed)
  obtain cs1 w1 where s1: "snd (verifyUserDetails ?T username (cs, w)) = (cs1, w1)"
    by (cases "snd (verifyUserDetails ?T username (cs, w))")
  obtain s2 where s2: "snd (verifyUserDetails ?T username (cs1, w1)) = s2"
    by simp
  have first: "verifyUserDetails ?T username (cs, w) = (Inr (r = num 1), (cs1, w1))"
    using result [of cs w] s1 by (simp add: prod_eq_iff)
  have second: "verifyUserDetails ?T username (cs1, w1) = (Inr (r = num 1), s2)"
    using result [of cs1 w1] s2 by (simp add: prod_eq_iff)
  have log1: "cs1 = cs @ calls_made chk disp username w"
    using log_after [of chk disp username cs w] s1 by simp
  have log2: "fst s2 = cs1 @ calls_made chk disp username w1"
    using log_after [of chk disp username cs1 w1] s2 by simp
  have rep1: "calls_to ''displayErrorMessage'' (fst (cs1, w1)) =
      calls_to ''displayErrorMessage'' cs @
      calls_to ''displayErrorMessage'' (calls_made chk disp username w)"
    by (simp add: log1 calls_to_append)
  have rep2: "calls_to ''displayErrorMessage'' (fst s2) =
      calls_to ''displayErrorMessage'' (fst (cs1, w1)) @
      calls_to ''displayErrorMessage'' (calls_made chk disp username w)"
    using reported [of w1] by (simp add: log2 calls_to_append)
  from first second rep1 rep2 show ?thesis
    by (intro exI conjI)
qed

theorem verifyUserDetails_twice_witness:
  "(\<forall>w. fst (returnValue (num 0) [JStr ''robin''] (w :: unit)) = Inr (num 0)) \<and>
   returns_normally (Method (noop :: unit fn)) \<and>
   (\<exists>b s1 s2 ms.
     verifyUserDetails (spied (returnValue (num 0)) noop) (JStr ''robin'') ([], ())
       = (Inr b, s1) \<and>
     verifyUserDetails (spied (returnValue (num 0)) noop) (JStr ''robin'') s1 = (Inr b, s2) \<and>
     calls_to ''displayErrorMessage'' (fst s1) = calls_to ''displayErrorMessage'' [] @ ms \<and>
     calls_to ''displayErrorMessage'' (fst s2) = calls_to ''displayErrorMessage'' (fst s1) @ ms)"
proof -
  have fixed: "fst (returnValue (num 0) [JStr ''robin''] (w :: unit)) = Inr (num 0)" for w
    by (simp add: returnValue_def)
  show ?thesis
    using verifyUserDetails_twice
      [where chk = "returnValue (num 0)" and disp = noop and username = "JStr ''robin''"
         and r = "num 0" and cs = "[]" and w = "()", OF fixed noop_normal]
      fixed noop_normal
    by simp
qed

text \<open>
  C9. For any two usernames, when the checker gives the same answer for both, the
  error reporter is called with the same message or, for both, not at all: the message
  is chosen by the answer alone and the username has no part in it.
\<close>

theorem error_message_independent_of_username:
  assumes "fst (chk [u1] w1) = fst (chk [u2] w2)"
  shows "calls_to ''displayErrorMessage'' (calls_made chk disp u1 w1) =
         calls_to ''displayErrorMessage'' (calls_made chk disp u2 w2)"
  by (simp add: reporter_calls_made assms)

theorem error_message_independent_of_username_witness:
  "fst (returnValue (num (- 1)) [JStr ''joker''] ()) =
     fst (returnValue (num (- 1)) [JStr ''robin''] ()) \<and>
   calls_to ''displayErrorMessage''
     (calls_made (returnValue (num (- 1))) noop (JStr ''joker'') ()) =
   calls_to ''displayErrorMessage''
     (calls_made (returnValue (num (- 1))) noop (JStr ''robin'') ())"
proof -
  have same: "fst (returnValue (num (- 1)) [JStr ''joker''] ()) =
      fst (returnValue (num (- 1)) [JStr ''robin''] ())"
    by (simp add: returnValue_def)
  show ?thesis
    using error_message_independent_of_username
      [where chk = "returnValue (num (- 1))" and disp = noop and ?u1.0 = "JStr ''joker''"
         and ?u2.0 = "JStr ''robin''" and ?w1.0 = "()" and ?w2.0 = "()", OF same] same
    by simp
qed

text \<open>
  C10. For every username and whatever the collaborators do: if the error reporter is
  called during a call of \<^verbatim>\<open>verifyUserDetails\<close>, that call does not return \<^verbatim>\<open>true\<close>;
  it returns \<^verbatim>\<open>false\<close> when the reporter returns normally. An error report and granted
  access never come together.
\<close>

theorem reported_then_denied:
  assumes "calls_to ''displayErrorMessage''
             (fst (snd (verifyUserDetails (spied chk disp) username (cs, w)))) \<noteq>
           calls_to ''displayErrorMessage'' cs"
  shows "fst (verifyUserDetails (spied chk disp) username (cs, w)) \<noteq> Inr True \<and>
         (returns_normally (Method disp) \<longrightarrow>
            fst (verifyUserDetails (spied chk disp) username (cs, w)) = Inr False)"
proof -
  from assms have called: "calls_to ''displayErrorMessage'' (calls_made chk disp username w) \<noteq> []"
    by (simp add: log_after calls_to_append)
  then obtain r where answer: "fst (chk [username] w) = Inr r" and r: "r \<noteq> num 1"
    by (auto simp: reporter_calls_made num_eq_iff split: if_splits)
  have c: "call_method (checkUserDetails (spied chk disp)) [username] (cs, w) =
      (Inr r, (cs @ [(''checkUserDetails'', [username])], snd (chk [username] w)))"
    by (simp add: spied_check answer)
  have "fst (verifyUserDetails (spied chk disp) username (cs, w)) \<noteq> Inr True"
    using granted_iff [OF c] r by simp
  moreover have "fst (verifyUserDetails (spied chk disp) username (cs, w)) = Inr False"
    if "returns_normally (Method disp)"
    using result_of_response [OF c spied_display_normal [OF that]] r by simp
  ultimately show ?thesis by blast
qed

theorem reported_then_denied_witness:
  "calls_to ''displayErrorMessage''
     (fst (snd (verifyUserDetails (spied (returnValue (num 0)) noop) (JStr ''robin'')
        ([], ())))) \<noteq> calls_to ''displayErrorMessage'' [] \<and>
   returns_normally (Method (noop :: unit fn)) \<and>
   fst (verifyUserDetails (spied (returnValue (num 0)) noop) (JStr ''robin'') ([], ()))
     = Inr False"
proof -
  have called: "calls_to ''displayErrorMessage''
      (fst (snd (verifyUserDetails (spied (returnValue (num 0)) noop) (JStr ''robin'')
         ([], ())))) \<noteq> calls_to ''displayErrorMessage'' []"
    by (simp add: log_after calls_to_append calls_to_Nil reporter_calls_made returnValue_def)
  show ?thesis
    using reported_then_denied
      [where chk = "returnValue (num 0)" and disp = noop and username = "JStr ''robin''"
         and cs = "[]" and w = "()", OF called] called noop_normal
    by blast
qed

end
